theory Spec2Isabelle
  imports Complex_Main "HOL-Library.AList"
begin

section \<open>Host values\<close>

text \<open>
  The interpreter is written in JavaScript, and every function of \<^verbatim>\<open>lib.js\<close> and of the
  evaluator takes and returns host values. The model carries the host values these
  functions can meet: the primitives, host arrays (AST nodes and result lists are arrays),
  the three primitive wrappers, references to instances of \<^verbatim>\<open>LObject\<close> and its
  subclasses, and the members every host object inherits from the host's base object.

  Host numbers are doubles. A finite one is carried as the rational number it is, beside
  the three special values; where the host rounds a result, the rounding is the host's.
\<close>

datatype jsnum = NaN | PInf | NInf | Fin rat

datatype cls = LObject | LArray | LFunction

type_synonym addr = nat

datatype val =
    Undefined
  | Null
  | JBool bool
  | JNum jsnum
  | JStr string
  | JArr "val list"
  | StringPrim val      \<comment> \<open>the field \<^verbatim>\<open>_str\<close>\<close>
  | BooleanPrim val     \<comment> \<open>the field \<^verbatim>\<open>_bool\<close>\<close>
  | NumberPrim val      \<comment> \<open>the field \<^verbatim>\<open>_num\<close>\<close>
  | Ref cls addr        \<comment> \<open>an instance of \<^verbatim>\<open>LObject\<close>, \<^verbatim>\<open>LArray\<close> or \<^verbatim>\<open>LFunction\<close>\<close>
  | HostMember string   \<comment> \<open>a member of the host's base object, such as \<^verbatim>\<open>toString\<close>\<close>

text \<open>
  A function object holds in \<^verbatim>\<open>fn\<close> either a host function or the body of a user-defined
  function. The host functions the library itself creates are closures; each is named here
  by its text and carries what it closes over:
  \<^item> \<open>NReturn r\<close>: \<^verbatim>\<open>function([val]) { returnValue = val }\<close> of \<^verbatim>\<open>defaultCall\<close>, where \<open>r\<close>
    is the \<^verbatim>\<open>returnValue\<close> variable of that invocation;
  \<^item> \<open>NLazy value f\<close>: \<^verbatim>\<open>function() { return interp.evaluateExpression(value,
    fnToken.argumentScope) }\<close> of \<^verbatim>\<open>defaultCall\<close>, where \<open>f\<close> is \<^verbatim>\<open>fnToken\<close>;
  \<^item> \<open>NBound m obj\<close>: \<^verbatim>\<open>function(...args) { return value.fn(obj, ...args) }\<close> of
    \<^verbatim>\<open>defaultGet\<close>, where \<open>m\<close> is \<^verbatim>\<open>value.fn\<close>;
  \<^item> \<open>NPush\<close>, \<open>NPop\<close>, \<open>NDebug\<close>: the functions of \<^verbatim>\<open>LArrayPrototype\<close> and
    \<^verbatim>\<open>LFunctionPrototype\<close>.
  The functions of the builtins module are not among the sources and have no place here.
\<close>

datatype native =
    NReturn addr
  | NLazy val addr
  | NBound native val
  | NPush
  | NPop
  | NDebug

datatype fnbody = Native native | Code val

text \<open>
  What the host does and the repository does not decide: how a number that is not a small
  integer prints, how a string parses as a number, which double an exact sum rounds to, how
  a host function prints, and which members the host gives to its arrays and to the members
  of its base object.
\<close>

record host =
  numberText :: "jsnum \<Rightarrow> string"
  parseNumber :: "string \<Rightarrow> jsnum"
  roundNumber :: "rat \<Rightarrow> jsnum"
  memberText :: "string \<Rightarrow> string"
  nativeText :: "native \<Rightarrow> string"
  arrayMembers :: "string list"
  memberMembers :: "string \<Rightarrow> string list"

subsection \<open>Printing integers\<close>

definition digit :: "nat \<Rightarrow> char" where
  "digit d = ''0123456789'' ! d"

fun digits :: "nat \<Rightarrow> string" where
  "digits n = (if n < 10 then [digit n] else digits (n div 10) @ [digit (n mod 10)])"

declare digits.simps [simp del]

definition intText :: "int \<Rightarrow> string" where
  "intText i = (if i < 0 then CHR ''-'' # digits (nat (- i)) else digits (nat i))"

text \<open>The host prints an integer below \<open>10\<^sup>2\<^sup>1\<close> in magnitude in plain decimal.\<close>

definition numToString :: "host \<Rightarrow> jsnum \<Rightarrow> string" where
  "numToString h n =
     (case n of
        NaN \<Rightarrow> ''NaN''
      | PInf \<Rightarrow> ''Infinity''
      | NInf \<Rightarrow> ''-Infinity''
      | Fin q \<Rightarrow>
          (if q = of_int \<lfloor>q\<rfloor> \<and> \<bar>q\<bar> < 10 ^ 21 then intText \<lfloor>q\<rfloor> else numberText h n))"

subsection \<open>The host's coercions \<^verbatim>\<open>String\<close>, \<^verbatim>\<open>Boolean\<close> and \<^verbatim>\<open>Number\<close>\<close>

definition boolText :: "bool \<Rightarrow> string" where
  "boolText b = (if b then ''true'' else ''false'')"

fun join :: "string list \<Rightarrow> string" where
  "join [] = []"
| "join [s] = s"
| "join (s # t # ss) = s @ '','' @ join (t # ss)"

text \<open>\<^verbatim>\<open>Boolean(v)\<close>: every object is truthy, a wrapper of \<^verbatim>\<open>false\<close> included.\<close>

fun JS_Boolean :: "val \<Rightarrow> bool" where
  "JS_Boolean Undefined = False"
| "JS_Boolean Null = False"
| "JS_Boolean (JBool b) = b"
| "JS_Boolean (JNum n) = (n \<noteq> NaN \<and> n \<noteq> Fin 0)"
| "JS_Boolean (JStr s) = (s \<noteq> [])"
| "JS_Boolean _ = True"

definition numOfBool :: "bool \<Rightarrow> jsnum" where
  "numOfBool b = Fin (if b then 1 else 0)"

text \<open>
  \<^verbatim>\<open>String(v)\<close> and \<^verbatim>\<open>Number(v)\<close>. An object is first turned into a primitive by its own
  methods: \<^verbatim>\<open>StringPrim.toString\<close> returns \<^verbatim>\<open>this.str\<close>, \<^verbatim>\<open>BooleanPrim.toString\<close> returns
  \<^verbatim>\<open>'<Boolean ' + this.bool + '>'\<close> and \<^verbatim>\<open>BooleanPrim.valueOf\<close> returns \<^verbatim>\<open>this.bool\<close>,
  \<^verbatim>\<open>NumberPrim.toString\<close> and \<^verbatim>\<open>NumberPrim.valueOf\<close> return \<^verbatim>\<open>this.num\<close>,
  \<^verbatim>\<open>LFunction.toString\<close> returns \<^verbatim>\<open>'<Object Function>'\<close>; the getters \<^verbatim>\<open>str\<close>, \<^verbatim>\<open>bool\<close>
  and \<^verbatim>\<open>num\<close> coerce the stored field again.
\<close>

fun JS_String :: "host \<Rightarrow> val \<Rightarrow> string"
  and JS_Number :: "host \<Rightarrow> val \<Rightarrow> jsnum" where
  "JS_String h Undefined = ''undefined''"
| "JS_String h Null = ''null''"
| "JS_String h (JBool b) = boolText b"
| "JS_String h (JNum n) = numToString h n"
| "JS_String h (JStr s) = s"
| "JS_String h (JArr xs) =
     join (map (\<lambda>x. if x = Undefined \<or> x = Null then [] else JS_String h x) xs)"
| "JS_String h (StringPrim x) = JS_String h x"
| "JS_String h (BooleanPrim x) = ''<Boolean '' @ boolText (JS_Boolean x) @ ''>''"
| "JS_String h (NumberPrim x) = numToString h (JS_Number h x)"
| "JS_String h (Ref c a) = (if c = LFunction then ''<Object Function>'' else ''[object Object]'')"
| "JS_String h (HostMember m) = memberText h m"
| "JS_Number h Undefined = NaN"
| "JS_Number h Null = Fin 0"
| "JS_Number h (JBool b) = numOfBool b"
| "JS_Number h (JNum n) = n"
| "JS_Number h (JStr s) = parseNumber h s"
| "JS_Number h (JArr xs) =
     parseNumber h (join (map (\<lambda>x. if x = Undefined \<or> x = Null then [] else JS_String h x) xs))"
| "JS_Number h (StringPrim x) = parseNumber h (JS_String h x)"
| "JS_Number h (BooleanPrim x) = numOfBool (JS_Boolean x)"
| "JS_Number h (NumberPrim x) = JS_Number h x"
| "JS_Number h (Ref c a) =
     parseNumber h (if c = LFunction then ''<Object Function>'' else ''[object Object]'')"
| "JS_Number h (HostMember m) = parseNumber h (memberText h m)"


section \<open>Primitive wrappers and the conversion layer\<close>

text \<open>
  \<^verbatim>\<open>StringPrim\<close>, \<^verbatim>\<open>BooleanPrim\<close> and \<^verbatim>\<open>NumberPrim\<close> keep one field each, written by a
  setter and read by a getter:
  \<^verbatim>\<open>set str(str) { this._str = String(str) }\<close>, \<^verbatim>\<open>get str() { return String(this._str) }\<close>,
  and the same with \<^verbatim>\<open>Boolean\<close> and \<^verbatim>\<open>Number\<close>. A setter is modelled by the new content of
  the field, a getter by a function of the field.
\<close>

definition set_str :: "host \<Rightarrow> val \<Rightarrow> val" where
  "set_str h str = JStr (JS_String h str)"

definition get_str :: "host \<Rightarrow> val \<Rightarrow> string" where
  "get_str h f = JS_String h f"

definition set_bool :: "val \<Rightarrow> val" where
  "set_bool bool = JBool (JS_Boolean bool)"

definition get_bool :: "val \<Rightarrow> bool" where
  "get_bool f = JS_Boolean f"

definition set_num :: "host \<Rightarrow> val \<Rightarrow> val" where
  "set_num h num = JNum (JS_Number h num)"

definition get_num :: "host \<Rightarrow> val \<Rightarrow> jsnum" where
  "get_num h f = JS_Number h f"

text \<open>The constructors assign through the setters; \<^verbatim>\<open>toLString\<close> and its siblings call them.\<close>

definition toLString :: "host \<Rightarrow> val \<Rightarrow> val" where
  "toLString h str = StringPrim (set_str h str)"

definition toLBoolean :: "val \<Rightarrow> val" where
  "toLBoolean bool = BooleanPrim (set_bool bool)"

definition toLNumber :: "host \<Rightarrow> val \<Rightarrow> val" where
  "toLNumber h num = NumberPrim (set_num h num)"

definition toJString :: "host \<Rightarrow> val \<Rightarrow> string" where
  "toJString h str = (case str of StringPrim f \<Rightarrow> get_str h f | _ \<Rightarrow> JS_String h str)"

definition toJBoolean :: "val \<Rightarrow> bool" where
  "toJBoolean bool = (case bool of BooleanPrim f \<Rightarrow> (if get_bool f = True then True else False)
                                   | _ \<Rightarrow> False)"

definition toJNumber :: "host \<Rightarrow> val \<Rightarrow> jsnum" where
  "toJNumber h num = (case num of NumberPrim f \<Rightarrow> get_num h f | _ \<Rightarrow> JS_Number h num)"


section \<open>The store\<close>

text \<open>
  Objects that are mutated in place and shared live in a store: \<^verbatim>\<open>Variable\<close> cells (the
  field \<^verbatim>\<open>value\<close>), scope objects (plain host objects from names to cells, listed in
  insertion order as \<^verbatim>\<open>Object.keys\<close> reports them), instances of \<^verbatim>\<open>LObject\<close> and its
  subclasses, and the \<^verbatim>\<open>returnValue\<close> variable of each running \<^verbatim>\<open>defaultCall\<close>.
  \<open>fresh\<close> is the next unused address.

  \<open>printed\<close> lists what was handed to \<^verbatim>\<open>console.log\<close>. \<open>returned\<close> lists
  the invocations of \<^verbatim>\<open>return\<close> bindings, oldest first, each with the \<^verbatim>\<open>returnValue\<close>
  variable it wrote and the value; nothing reads it, it is there to state properties.
\<close>

record param =
  pname :: string
  ptype :: string

type_synonym scope = "(string \<times> addr) list"

record lobj =
  constructor' :: cls                      \<comment> \<open>\<^verbatim>\<open>__constructor__\<close>\<close>
  data :: "string \<rightharpoonup> val"
  fn :: "fnbody option"                    \<comment> \<open>present on an \<^verbatim>\<open>LFunction\<close>\<close>
  scopeVariables :: "addr option"          \<comment> \<open>\<^verbatim>\<open>null\<close> or a scope object\<close>
  paramaterList :: "param list option"     \<comment> \<open>absent until \<^verbatim>\<open>setParamaters\<close>\<close>
  argumentScope :: "addr option"           \<comment> \<open>absent until assigned\<close>

record state =
  cells :: "addr \<Rightarrow> val"
  scopes :: "addr \<Rightarrow> scope"
  objs :: "addr \<Rightarrow> lobj"
  rets :: "addr \<Rightarrow> val"
  fresh :: addr
  printed :: "val list list"
  returned :: "(addr \<times> val) list"

datatype error =
    Thrown val                  \<comment> \<open>\<^verbatim>\<open>throw\<close> of a value, here the message of a missing variable\<close>
  | InvalidExpressionType val   \<comment> \<open>with the offending expression\<close>
  | TypeError string            \<comment> \<open>raised by the host; carries the property or key its message names\<close>

text \<open>
  The outcome of running a piece of the program: a value, an exception, or one of two ends
  of the model. \<open>HostEffect k\<close>: the code assigned through the key \<open>k\<close> into an object of
  the host itself (a member of the host's base object, or a prototype link through
  \<^verbatim>\<open>__proto__\<close>); the model follows a run only while the host's own objects are as they
  were at start. \<open>OutOfFuel\<close>: the bound on the depth of recursion was reached.
\<close>

datatype 'a result =
    Ok 'a state
  | Throw error state
  | HostEffect string
  | OutOfFuel

section \<open>Plain host objects\<close>

text \<open>
  Every plain host object inherits the members of the host's base object, and the host's
  \<^verbatim>\<open>in\<close> and property reads see them: \<^verbatim>\<open>'toString' in {}\<close> is true.
\<close>

definition ObjectPrototype_members :: "string list" where
  "ObjectPrototype_members =
     [''constructor'', ''hasOwnProperty'', ''isPrototypeOf'', ''propertyIsEnumerable'',
      ''toLocaleString'', ''toString'', ''valueOf'', ''__proto__'',
      ''__defineGetter__'', ''__defineSetter__'', ''__lookupGetter__'', ''__lookupSetter__'']"

definition inherited :: "string \<Rightarrow> bool" where
  "inherited k = (k \<in> set ObjectPrototype_members)"

text \<open>\<^verbatim>\<open>key in obj\<close> and \<^verbatim>\<open>obj[key]\<close> for a plain object with the own properties \<open>m\<close>.\<close>

definition plain_in :: "(string \<rightharpoonup> 'a) \<Rightarrow> string \<Rightarrow> bool" where
  "plain_in m k = (case m k of Some _ \<Rightarrow> True | None \<Rightarrow> inherited k)"

definition plain_get :: "(string \<rightharpoonup> val) \<Rightarrow> string \<Rightarrow> val" where
  "plain_get m k =
     (case m k of Some v \<Rightarrow> v
      | None \<Rightarrow> if inherited k then HostMember k else Undefined)"

text \<open>
  An assignment \<^verbatim>\<open>obj[key] = v\<close> creates or replaces an own property, except through
  \<^verbatim>\<open>__proto__\<close>, where the host's setter ignores a primitive and takes anything else as the
  object's new prototype.
\<close>

definition isPrimitive :: "val \<Rightarrow> bool" where
  "isPrimitive v = (case v of Undefined \<Rightarrow> True | JBool _ \<Rightarrow> True | JNum _ \<Rightarrow> True
                    | JStr _ \<Rightarrow> True | _ \<Rightarrow> False)"

section \<open>Host arithmetic\<close>

text \<open>
  The host's sum of two doubles is the exact sum rounded to a double. An integer of
  magnitude at most \<open>2\<^sup>5\<^sup>3\<close> is a double, so a sum that is one is exact.
\<close>

fun js_add :: "host \<Rightarrow> jsnum \<Rightarrow> jsnum \<Rightarrow> jsnum" where
  "js_add h NaN _ = NaN"
| "js_add h _ NaN = NaN"
| "js_add h PInf NInf = NaN"
| "js_add h NInf PInf = NaN"
| "js_add h PInf _ = PInf"
| "js_add h _ PInf = PInf"
| "js_add h NInf _ = NInf"
| "js_add h _ NInf = NInf"
| "js_add h (Fin a) (Fin b) =
     (if a + b = of_int \<lfloor>a + b\<rfloor> \<and> \<bar>a + b\<bar> \<le> 2 ^ 53 then Fin (a + b)
      else roundNumber h (a + b))"

fun js_neg :: "jsnum \<Rightarrow> jsnum" where
  "js_neg NaN = NaN"
| "js_neg PInf = NInf"
| "js_neg NInf = PInf"
| "js_neg (Fin a) = Fin (- a)"

text \<open>\<^verbatim>\<open>a - b\<close> turns both operands into numbers.\<close>

definition js_minus :: "host \<Rightarrow> val \<Rightarrow> val \<Rightarrow> val" where
  "js_minus h a b = JNum (js_add h (JS_Number h a) (js_neg (JS_Number h b)))"

text \<open>
  \<^verbatim>\<open>a + b\<close> turns both operands into primitives first (\<^verbatim>\<open>valueOf\<close>, then \<^verbatim>\<open>toString\<close>) and
  concatenates if either is a string.
\<close>

fun toPrimitive :: "host \<Rightarrow> val \<Rightarrow> val" where
  "toPrimitive h (JArr xs) = JStr (JS_String h (JArr xs))"
| "toPrimitive h (StringPrim f) = JStr (get_str h f)"
| "toPrimitive h (BooleanPrim f) = JBool (get_bool f)"
| "toPrimitive h (NumberPrim f) = JNum (get_num h f)"
| "toPrimitive h (Ref c a) = JStr (JS_String h (Ref c a))"
| "toPrimitive h (HostMember m) = JStr (memberText h m)"
| "toPrimitive h v = v"

definition js_plus :: "host \<Rightarrow> val \<Rightarrow> val \<Rightarrow> val" where
  "js_plus h a b =
     (let pa = toPrimitive h a; pb = toPrimitive h b in
      case (pa, pb) of
        (JStr s, _) \<Rightarrow> JStr (s @ JS_String h pb)
      | (_, JStr t) \<Rightarrow> JStr (JS_String h pa @ t)
      | _ \<Rightarrow> JNum (js_add h (JS_Number h pa) (JS_Number h pb)))"

section \<open>The runtime object model\<close>

subsection \<open>\<^verbatim>\<open>has\<close>\<close>

text \<open>
  \<^verbatim>\<open>function has(obj, key) { return key in obj }\<close>: the host's \<^verbatim>\<open>in\<close> on the object itself,
  not on \<^verbatim>\<open>obj.data\<close>. What \<^verbatim>\<open>in\<close> finds on an instance are the fields its constructors
  assign, the methods of its classes and the members of the host's base object.
\<close>

definition instanceMembers :: "state \<Rightarrow> cls \<Rightarrow> addr \<Rightarrow> string list" where
  "instanceMembers st c a =
     [''data'', ''__constructor__'', ''__get__'', ''__set__'']
     @ (if c = LFunction then
          [''fn'', ''scopeVariables'', ''unevaluatedArgs'', ''normalArgs'',
           ''__call__'', ''setScopeVariables'', ''setParamaters'']
          @ (if paramaterList (objs st a) \<noteq> None then [''paramaterList''] else [])
          @ (if argumentScope (objs st a) \<noteq> None then [''argumentScope''] else [])
        else [])
     @ ObjectPrototype_members"

fun membersOf :: "host \<Rightarrow> state \<Rightarrow> val \<Rightarrow> string list option" where
  "membersOf h st (Ref c a) = Some (instanceMembers st c a)"
| "membersOf h st (StringPrim f) = Some ([''_str'', ''str''] @ ObjectPrototype_members)"
| "membersOf h st (BooleanPrim f) = Some ([''_bool'', ''bool''] @ ObjectPrototype_members)"
| "membersOf h st (NumberPrim f) = Some ([''_num'', ''num''] @ ObjectPrototype_members)"
| "membersOf h st (JArr xs) =
     Some (map (\<lambda>i. intText (int i)) [0..<length xs] @ [''length''] @ arrayMembers h
           @ ObjectPrototype_members)"
| "membersOf h st (HostMember m) = Some (memberMembers h m @ ObjectPrototype_members)"
| "membersOf h st _ = None"

definition has :: "host \<Rightarrow> state \<Rightarrow> val \<Rightarrow> val \<Rightarrow> error + bool" where
  "has h st obj key =
     (case membersOf h st obj of
        None \<Rightarrow> Inl (TypeError (JS_String h key))
      | Some ms \<Rightarrow> Inr (JS_String h key \<in> set ms))"

subsection \<open>\<^verbatim>\<open>set\<close>\<close>

text \<open>\<^verbatim>\<open>obj.data[k] = v\<close> on the instance at \<open>a\<close>.\<close>

definition data_assign :: "addr \<Rightarrow> string \<Rightarrow> val \<Rightarrow> state \<Rightarrow> unit result" where
  "data_assign a k v st =
     (if k = ''__proto__'' then (if isPrimitive v then Ok () st else HostEffect k)
      else Ok () (st\<lparr>objs := (objs st)(a := (objs st a)\<lparr>data := (data (objs st a))(k \<mapsto> v)\<rparr>)\<rparr>))"

definition defaultSet :: "host \<Rightarrow> addr \<Rightarrow> val \<Rightarrow> val \<Rightarrow> state \<Rightarrow> val result" where
  "defaultSet h a key value st =
     (case data_assign a (toJString h key) value st of
        Ok _ st' \<Rightarrow> Ok value st'
      | Throw e st' \<Rightarrow> Throw e st'
      | HostEffect k \<Rightarrow> HostEffect k
      | OutOfFuel \<Rightarrow> OutOfFuel)"

text \<open>
  \<^verbatim>\<open>function set(obj, key, value) { return obj['__set__'](key, value) }\<close>: only instances of
  \<^verbatim>\<open>LObject\<close> and its subclasses have the method.
\<close>

definition set' :: "host \<Rightarrow> val \<Rightarrow> val \<Rightarrow> val \<Rightarrow> state \<Rightarrow> val result" where
  "set' h obj key value st =
     (case obj of Ref c a \<Rightarrow> defaultSet h a key value st
      | _ \<Rightarrow> Throw (TypeError ''__set__'') st)"

subsection \<open>Constructors\<close>

text \<open>
  \<^verbatim>\<open>new LObject()\<close> starts with \<^verbatim>\<open>data = {}\<close>; \<^verbatim>\<open>new LArray()\<close> adds \<^verbatim>\<open>data.length = 0\<close>;
  \<^verbatim>\<open>new LFunction(fn)\<close> stores \<^verbatim>\<open>fn\<close> and sets \<^verbatim>\<open>scopeVariables = null\<close>.
\<close>

definition blank :: "cls \<Rightarrow> lobj" where
  "blank c = \<lparr>constructor' = c, data = Map.empty, fn = None, scopeVariables = None,
              paramaterList = None, argumentScope = None\<rparr>"

definition alloc :: "cls \<Rightarrow> lobj \<Rightarrow> state \<Rightarrow> val \<times> state" where
  "alloc c ob st =
     (Ref c (fresh st), st\<lparr>objs := (objs st)(fresh st := ob), fresh := Suc (fresh st)\<rparr>)"

definition new_LObject :: "state \<Rightarrow> val \<times> state" where
  "new_LObject st = alloc LObject (blank LObject) st"


definition new_LFunction :: "fnbody \<Rightarrow> state \<Rightarrow> val \<times> state" where
  "new_LFunction f st = alloc LFunction ((blank LFunction)\<lparr>fn := Some f\<rparr>) st"

subsection \<open>\<^verbatim>\<open>get\<close>\<close>

text \<open>
  The constructors' \<^verbatim>\<open>__super__\<close> and \<^verbatim>\<open>__prototype__\<close>. Each entry of a prototype table
  is an \<^verbatim>\<open>LFunction\<close> around a host function, named here by that function.
\<close>

fun super :: "cls \<Rightarrow> cls option" where
  "super LObject = None"
| "super LArray = Some LObject"
| "super LFunction = Some LObject"

fun prototype :: "cls \<Rightarrow> (string \<rightharpoonup> native)" where
  "prototype LObject = Map.empty"
| "prototype LArray = [''push'' \<mapsto> NPush, ''pop'' \<mapsto> NPop]"
| "prototype LFunction = [''debug'' \<mapsto> NDebug]"

text \<open>
  The loop of \<^verbatim>\<open>defaultGet\<close>:
  \<^verbatim>\<open>while (current && prototype && !(key in prototype)) { current = current['__super__'];
  prototype = current ? current['__prototype__'] : null }\<close>; the result is \<^verbatim>\<open>current\<close>.
\<close>

function walk :: "cls option \<Rightarrow> string \<Rightarrow> cls option" where
  "walk None k = None"
| "walk (Some c) k = (if \<not> plain_in (prototype c) k then walk (super c) k else Some c)"
  by pat_completeness auto
termination
  by (relation "measure (\<lambda>(c, k). case c of None \<Rightarrow> 0 | Some LObject \<Rightarrow> 1 | Some _ \<Rightarrow> (2::nat))")
     (auto split: cls.splits elim: super.elims)

definition defaultGet :: "host \<Rightarrow> cls \<Rightarrow> addr \<Rightarrow> val \<Rightarrow> state \<Rightarrow> val result" where
  "defaultGet h c a key st =
     (let keyString = toJString h key; d = data (objs st a) in
      if plain_in d keyString then Ok (plain_get d keyString) st
      else
        case walk (Some (constructor' (objs st a))) (JS_String h key) of
          None \<Rightarrow> Ok Undefined st
        | Some current \<Rightarrow>
            (case prototype current keyString of
               Some m \<Rightarrow> (case new_LFunction (Native (NBound m (Ref c a))) st of
                            (f, st') \<Rightarrow> Ok f st')
             | None \<Rightarrow> Ok (if inherited keyString then HostMember keyString else Undefined) st))"

definition get' :: "host \<Rightarrow> val \<Rightarrow> val \<Rightarrow> state \<Rightarrow> val result" where
  "get' h obj key st =
     (case obj of Ref c a \<Rightarrow> defaultGet h c a key st
      | _ \<Rightarrow> Throw (TypeError ''__get__'') st)"

subsection \<open>The prototype functions\<close>

text \<open>
  \<^verbatim>\<open>self.data\<close> followed by a read of \<^verbatim>\<open>length\<close>: the host raises a type error when \<^verbatim>\<open>self\<close>
  is \<^verbatim>\<open>undefined\<close> or \<^verbatim>\<open>null\<close>, and when \<^verbatim>\<open>self\<close> has no \<^verbatim>\<open>data\<close>.
\<close>

fun self_data :: "val \<Rightarrow> error + addr" where
  "self_data Undefined = Inl (TypeError ''data'')"
| "self_data Null = Inl (TypeError ''data'')"
| "self_data (Ref c a) = Inr a"
| "self_data _ = Inl (TypeError ''length'')"

text \<open>The \<open>i\<close>-th argument of a host call, \<^verbatim>\<open>undefined\<close> when it was not passed.\<close>

definition arg :: "nat \<Rightarrow> val list \<Rightarrow> val" where
  "arg i args = (if i < length args then args ! i else Undefined)"

text \<open>
  \<^verbatim>\<open>pop: function(self) { delete self.data[self.data.length - 1];
  self.data.length = self.data.length - 1 }\<close>
\<close>

definition LArrayPrototype_pop :: "host \<Rightarrow> val list \<Rightarrow> state \<Rightarrow> val result" where
  "LArrayPrototype_pop h args st =
     (case self_data (arg 0 args) of
        Inl e \<Rightarrow> Throw e st
      | Inr a \<Rightarrow>
          (let d = data (objs st a);
               k = JS_String h (js_minus h (plain_get d ''length'') (JNum (Fin 1)));
               d' = d(k := None);
               n = js_minus h (plain_get d' ''length'') (JNum (Fin 1))
           in Ok Undefined (st\<lparr>objs := (objs st)(a := (objs st a)\<lparr>data := d'(''length'' \<mapsto> n)\<rparr>)\<rparr>)))"

text \<open>
  \<^verbatim>\<open>push: function(self, what) { self.data[self.data.length] = what;
  self.data.length = self.data.length + 1 }\<close>
\<close>

definition LArrayPrototype_push :: "host \<Rightarrow> val list \<Rightarrow> state \<Rightarrow> val result" where
  "LArrayPrototype_push h args st =
     (case self_data (arg 0 args) of
        Inl e \<Rightarrow> Throw e st
      | Inr a \<Rightarrow>
          (case data_assign a (JS_String h (plain_get (data (objs st a)) ''length'')) (arg 1 args) st of
             Ok _ st1 \<Rightarrow>
               (let n = js_plus h (plain_get (data (objs st1 a)) ''length'') (JNum (Fin 1))
                in Ok Undefined
                     (st1\<lparr>objs := (objs st1)(a := (objs st1 a)\<lparr>data := (data (objs st1 a))(''length'' \<mapsto> n)\<rparr>)\<rparr>))
           | Throw e st1 \<Rightarrow> Throw e st1
           | HostEffect k \<Rightarrow> HostEffect k
           | OutOfFuel \<Rightarrow> OutOfFuel))"

text \<open>
  \<^verbatim>\<open>debug: function(self) { console.log('** DEBUG **'); console.log(self.fn.toString()) }\<close>.
  \<^verbatim>\<open>self.fn.toString()\<close> is the method of what \<^verbatim>\<open>fn\<close> holds: a string, except for a
  \<^verbatim>\<open>NumberPrim\<close>, whose \<^verbatim>\<open>toString\<close> returns the number \<^verbatim>\<open>this.num\<close>.
\<close>

definition fn_text :: "host \<Rightarrow> state \<Rightarrow> val \<Rightarrow> error + val" where
  "fn_text h st self =
     (case self of
        Undefined \<Rightarrow> Inl (TypeError ''fn'')
      | Null \<Rightarrow> Inl (TypeError ''fn'')
      | Ref c a \<Rightarrow>
          (case fn (objs st a) of
             Some (Native m) \<Rightarrow> Inr (JStr (nativeText h m))
           | Some (Code Undefined) \<Rightarrow> Inl (TypeError ''toString'')
           | Some (Code Null) \<Rightarrow> Inl (TypeError ''toString'')
           | Some (Code (NumberPrim f)) \<Rightarrow> Inr (JNum (get_num h f))
           | Some (Code body) \<Rightarrow> Inr (JStr (JS_String h body))
           | None \<Rightarrow> Inl (TypeError ''toString''))
      | _ \<Rightarrow> Inl (TypeError ''toString''))"

definition LFunctionPrototype_debug :: "host \<Rightarrow> val list \<Rightarrow> state \<Rightarrow> val result" where
  "LFunctionPrototype_debug h args st =
     (let st1 = st\<lparr>printed := printed st @ [[JStr ''** DEBUG **'']]\<rparr> in
      case fn_text h st1 (arg 0 args) of
        Inl e \<Rightarrow> Throw e st1
      | Inr v \<Rightarrow> Ok Undefined (st1\<lparr>printed := printed st1 @ [[v]]\<rparr>))"


section \<open>The evaluator\<close>

subsection \<open>Node kinds\<close>

text \<open>
  Modelled from the spec: the module \<^verbatim>\<open>constants\<close>, which the evaluator reads its node-kind
  tags from (\<^verbatim>\<open>C.COMMENT\<close>, \<^verbatim>\<open>C.FUNCTION_CALL\<close>, ...), is not among the sources. The spec
  calls the tags opaque identifiers agreed upon between parser and evaluator; each tag is
  taken here to be the host string of its own name, so that the tags are pairwise distinct.
\<close>

definition COMMENT :: val where "COMMENT = JStr ''COMMENT''"
definition FUNCTION_CALL :: val where "FUNCTION_CALL = JStr ''FUNCTION_CALL''"
definition VARIABLE_IDENTIFIER :: val where "VARIABLE_IDENTIFIER = JStr ''VARIABLE_IDENTIFIER''"
definition VARIABLE_ASSIGN :: val where "VARIABLE_ASSIGN = JStr ''VARIABLE_ASSIGN''"
definition VARIABLE_CHANGE :: val where "VARIABLE_CHANGE = JStr ''VARIABLE_CHANGE''"
definition FUNCTION_PRIM :: val where "FUNCTION_PRIM = JStr ''FUNCTION_PRIM''"
definition STRING_PRIM :: val where "STRING_PRIM = JStr ''STRING_PRIM''"
definition BOOLEAN_PRIM :: val where "BOOLEAN_PRIM = JStr ''BOOLEAN_PRIM''"
definition NUMBER_PRIM :: val where "NUMBER_PRIM = JStr ''NUMBER_PRIM''"
definition SET_PROP_USING_IDENTIFIER :: val where
  "SET_PROP_USING_IDENTIFIER = JStr ''SET_PROP_USING_IDENTIFIER''"
definition GET_PROP_USING_IDENTIFIER :: val where
  "GET_PROP_USING_IDENTIFIER = JStr ''GET_PROP_USING_IDENTIFIER''"

subsection \<open>Sequencing\<close>

text \<open>Run \<open>m\<close>, then \<open>f\<close> on its value; an exception or an end of the model ends the run.\<close>

definition bind :: "'a result \<Rightarrow> ('a \<Rightarrow> state \<Rightarrow> 'b result) \<Rightarrow> 'b result" where
  "bind m f =
     (case m of
        Ok v st \<Rightarrow> f v st
      | Throw e st \<Rightarrow> Throw e st
      | HostEffect k \<Rightarrow> HostEffect k
      | OutOfFuel \<Rightarrow> OutOfFuel)"

definition lift :: "error + 'a \<Rightarrow> state \<Rightarrow> 'a result" where
  "lift r st = (case r of Inl e \<Rightarrow> Throw e st | Inr v \<Rightarrow> Ok v st)"

type_synonym eval = "val \<Rightarrow> addr option \<Rightarrow> state \<Rightarrow> val result"

subsection \<open>Host reads\<close>

text \<open>
  \<^verbatim>\<open>x[i]\<close> for a number \<open>i\<close>: a type error on \<^verbatim>\<open>undefined\<close> and \<^verbatim>\<open>null\<close>, the element of an
  array or the character of a string when there is one, \<^verbatim>\<open>undefined\<close> otherwise.
\<close>

fun elem :: "val \<Rightarrow> nat \<Rightarrow> val" where
  "elem (JArr xs) i = (if i < length xs then xs ! i else Undefined)"
| "elem (JStr s) i = (if i < length s then JStr [s ! i] else Undefined)"
| "elem _ i = Undefined"

definition index :: "val \<Rightarrow> nat \<Rightarrow> error + val" where
  "index x i = (if x = Undefined \<or> x = Null then Inl (TypeError (intText (int i)))
                else Inr (elem x i))"

fun isArray :: "val \<Rightarrow> bool" where
  "isArray (JArr xs) = True"
| "isArray _ = False"

text \<open>
  \<^verbatim>\<open>Object.keys\<close> of a scope object: the host lists the names that are array indices first,
  in ascending order, then the others in the order of their creation.
\<close>

definition isDigit :: "char \<Rightarrow> bool" where
  "isDigit c = (c \<in> set ''0123456789'')"

definition natOf :: "string \<Rightarrow> nat" where
  "natOf s = foldl (\<lambda>a c. 10 * a + (of_char c - 48)) 0 s"

definition isIndexKey :: "string \<Rightarrow> bool" where
  "isIndexKey k = (k \<noteq> [] \<and> list_all isDigit k
                   \<and> (if hd k = CHR ''0'' then k = ''0'' else True)
                   \<and> natOf k < 4294967295)"

definition Object_keys :: "scope \<Rightarrow> string list" where
  "Object_keys sc =
     sort_key natOf (filter isIndexKey (map fst sc))
     @ filter (\<lambda>k. \<not> isIndexKey k) (map fst sc)"

subsection \<open>\<^verbatim>\<open>evaluateEachExpression\<close>\<close>

text \<open>\<^verbatim>\<open>expressions.map(e => evaluateExpression(e, variables))\<close>, left to right.\<close>

fun evaluateEach :: "eval \<Rightarrow> addr option \<Rightarrow> val list \<Rightarrow> state \<Rightarrow> val list result" where
  "evaluateEach ev variables [] st = Ok [] st"
| "evaluateEach ev variables (e # es) st =
     bind (ev e variables st) (\<lambda>v st1.
     bind (evaluateEach ev variables es st1) (\<lambda>vs st2.
     Ok (v # vs) st2))"

text \<open>The receiver of \<^verbatim>\<open>.map\<close> has to be an array.\<close>

definition evaluateEachExpression :: "eval \<Rightarrow> addr option \<Rightarrow> val \<Rightarrow> state \<Rightarrow> val result" where
  "evaluateEachExpression ev variables expressions st =
     (case expressions of
        JArr es \<Rightarrow> bind (evaluateEach ev variables es st) (\<lambda>vs st1. Ok (JArr vs) st1)
      | _ \<Rightarrow> Throw (TypeError ''map'') st)"

subsection \<open>Host functions\<close>

text \<open>
  The parameter \<^verbatim>\<open>[val]\<close> of the \<^verbatim>\<open>return\<close> function takes the first element of what it is
  given: of an array or a string (both iterable); anything else cannot be destructured.
\<close>

fun firstOf :: "val \<Rightarrow> error + val" where
  "firstOf (JArr xs) = Inr (if xs = [] then Undefined else hd xs)"
| "firstOf (JStr s) = Inr (if s = [] then Undefined else JStr [hd s])"
| "firstOf _ = Inl (TypeError ''destructure'')"

fun applyNative :: "host \<Rightarrow> eval \<Rightarrow> native \<Rightarrow> val list \<Rightarrow> state \<Rightarrow> val result" where
  "applyNative h ev (NReturn r) args st =
     bind (lift (firstOf (arg 0 args)) st) (\<lambda>v st1.
     Ok Undefined (st1\<lparr>rets := (rets st1)(r := v), returned := returned st1 @ [(r, v)]\<rparr>))"
| "applyNative h ev (NLazy value f) args st = ev value (argumentScope (objs st f)) st"
| "applyNative h ev (NBound m obj) args st = applyNative h ev m (obj # args) st"
| "applyNative h ev NPush args st = LArrayPrototype_push h args st"
| "applyNative h ev NPop args st = LArrayPrototype_pop h args st"
| "applyNative h ev NDebug args st = LFunctionPrototype_debug h args st"

subsection \<open>\<^verbatim>\<open>defaultCall\<close>\<close>

text \<open>\<^verbatim>\<open>scope[key] = new Variable(v)\<close> on the scope object at \<open>s\<close>.\<close>

definition bindVariable :: "addr \<Rightarrow> string \<Rightarrow> val \<Rightarrow> state \<Rightarrow> unit result" where
  "bindVariable s key v st =
     (if key = ''__proto__'' then HostEffect key
      else Ok () (st\<lparr>cells := (cells st)(fresh st := v),
                      scopes := (scopes st)(s := AList.update key (fresh st) (scopes st s)),
                      fresh := Suc (fresh st)\<rparr>))"

text \<open>\<^verbatim>\<open>Object.assign({}, src)\<close> where \<open>src\<close> is a scope object, \<^verbatim>\<open>null\<close> or \<^verbatim>\<open>undefined\<close>.\<close>

definition copyScope :: "addr option \<Rightarrow> state \<Rightarrow> addr \<times> state" where
  "copyScope src st =
     (fresh st,
      st\<lparr>scopes := (scopes st)(fresh st := (case src of None \<Rightarrow> [] | Some s \<Rightarrow> scopes st s)),
         fresh := Suc (fresh st)\<rparr>)"

text \<open>
  The loop over the parameters, from index \<open>i\<close> on. A parameter of type \<^verbatim>\<open>'normal'\<close> has its
  argument evaluated by \<^verbatim>\<open>interp.evaluateExpression(value)\<close>, that is with no scope; one of
  type \<^verbatim>\<open>'unevaluated'\<close> is bound to a new function around the argument; any other type
  binds nothing.
\<close>

fun bindParamaters ::
  "eval \<Rightarrow> addr \<Rightarrow> addr \<Rightarrow> val list \<Rightarrow> nat \<Rightarrow> param list \<Rightarrow> state \<Rightarrow> unit result" where
  "bindParamaters ev f scope args i [] st = Ok () st"
| "bindParamaters ev f scope args i (paramater # rest) st =
     bind
       (if ptype paramater = ''normal'' then
          bind (ev (arg i args) None st) (\<lambda>evaluatedValue st1.
          bindVariable scope (pname paramater) evaluatedValue st1)
        else if ptype paramater = ''unevaluated'' then
          (case new_LFunction (Native (NLazy (arg i args) f)) st of
             (g, st1) \<Rightarrow> bindVariable scope (pname paramater) g st1)
        else Ok () st)
       (\<lambda>_ st2. bindParamaters ev f scope args (Suc i) rest st2)"

text \<open>
  The branch of \<^verbatim>\<open>defaultCall\<close> for a function whose \<^verbatim>\<open>fn\<close> is not a host function. It
  starts with \<^verbatim>\<open>const scope = Object.assign({}, fnToken.scopeVariables); let returnValue =
  null; scope.return = new Variable(new LFunction(function([val]) { returnValue = val }))\<close>,
  which gives the new scope and the \<^verbatim>\<open>returnValue\<close> variable.
\<close>

definition enterCall :: "addr \<Rightarrow> state \<Rightarrow> (addr \<times> addr) result" where
  "enterCall f st =
     (case copyScope (scopeVariables (objs st f)) st of (scope, st1) \<Rightarrow>
      let r = fresh st1;
          st2 = st1\<lparr>rets := (rets st1)(r := Null), fresh := Suc r\<rparr> in
      case new_LFunction (Native (NReturn r)) st2 of (ret, st3) \<Rightarrow>
      bind (bindVariable scope ''return'' ret st3) (\<lambda>_ st4. Ok (scope, r) st4))"

text \<open>
  Then the parameters are bound, every expression of the body is evaluated, and
  \<^verbatim>\<open>returnValue\<close> is the result.
\<close>

definition userCall :: "eval \<Rightarrow> addr \<Rightarrow> val \<Rightarrow> val list \<Rightarrow> state \<Rightarrow> val result" where
  "userCall ev f body args st =
     bind (enterCall f st) (\<lambda>(scope, r) st4.
     case paramaterList (objs st4 f) of
       None \<Rightarrow> Throw (TypeError ''length'') st4
     | Some paramaters \<Rightarrow>
         bind (bindParamaters ev f scope args 0 paramaters st4) (\<lambda>_ st5.
         bind (evaluateEachExpression ev (Some scope) body st5) (\<lambda>_ st6.
         Ok (rets st6 r) st6)))"

definition defaultCall :: "host \<Rightarrow> eval \<Rightarrow> addr \<Rightarrow> val list \<Rightarrow> state \<Rightarrow> val result" where
  "defaultCall h ev f args st =
     (case fn (objs st f) of
        Some (Native m) \<Rightarrow>
          bind (evaluateEach ev (argumentScope (objs st f)) args st) (\<lambda>vs st1.
          applyNative h ev m [JArr vs] st1)
      | Some (Code body) \<Rightarrow> userCall ev f body args st
      | None \<Rightarrow> userCall ev f Undefined args st)"

text \<open>
  \<^verbatim>\<open>function call(fn, args) { return fn['__call__'](args) }\<close>: only an \<^verbatim>\<open>LFunction\<close> has the
  method.
\<close>

definition call :: "host \<Rightarrow> eval \<Rightarrow> val \<Rightarrow> val list \<Rightarrow> state \<Rightarrow> val result" where
  "call h ev fn' args st =
     (case fn' of
        Ref LFunction f \<Rightarrow> defaultCall h ev f args st
      | _ \<Rightarrow> Throw (TypeError ''__call__'') st)"

subsection \<open>\<^verbatim>\<open>evaluateExpression\<close>\<close>

text \<open>
  \<^verbatim>\<open>if (name in variables) return variables[name].value; else throw `Variable ${name} not in
  [${Object.keys(variables)}]`\<close>. The host's \<^verbatim>\<open>in\<close> also finds the members a scope object
  inherits from the host's base object; none of them has a \<^verbatim>\<open>value\<close>.
\<close>

definition notFound :: "host \<Rightarrow> val \<Rightarrow> scope \<Rightarrow> val" where
  "notFound h name sc =
     JStr (''Variable '' @ JS_String h name @ '' not in ['' @ join (Object_keys sc) @ '']'')"

definition readVariable :: "host \<Rightarrow> val \<Rightarrow> addr option \<Rightarrow> state \<Rightarrow> val result" where
  "readVariable h name variables st =
     (case variables of
        None \<Rightarrow> Throw (TypeError (JS_String h name)) st
      | Some s \<Rightarrow>
          (case map_of (scopes st s) (JS_String h name) of
             Some c \<Rightarrow> Ok (cells st c) st
           | None \<Rightarrow>
               if inherited (JS_String h name) then Ok Undefined st
               else Throw (Thrown (notFound h name (scopes st s))) st))"

text \<open>\<^verbatim>\<open>variables[name] = new lib.Variable(value)\<close>\<close>

definition assignVariable :: "host \<Rightarrow> val \<Rightarrow> addr option \<Rightarrow> val \<Rightarrow> state \<Rightarrow> val result" where
  "assignVariable h name variables value st =
     (case variables of
        None \<Rightarrow> Throw (TypeError (JS_String h name)) st
      | Some s \<Rightarrow> bind (bindVariable s (JS_String h name) value st) (\<lambda>_ st1. Ok Undefined st1))"

text \<open>
  \<^verbatim>\<open>variables[name].value = value\<close>: there is no test that the name is there. On a missing
  name the host raises its own type error, about the property \<^verbatim>\<open>value\<close> of \<^verbatim>\<open>undefined\<close>.
\<close>

definition changeVariable :: "host \<Rightarrow> val \<Rightarrow> addr option \<Rightarrow> val \<Rightarrow> state \<Rightarrow> val result" where
  "changeVariable h name variables value st =
     (case variables of
        None \<Rightarrow> Throw (TypeError (JS_String h name)) st
      | Some s \<Rightarrow>
          (case map_of (scopes st s) (JS_String h name) of
             Some c \<Rightarrow> Ok Undefined (st\<lparr>cells := (cells st)(c := value)\<rparr>)
           | None \<Rightarrow>
               if inherited (JS_String h name) then HostEffect (JS_String h name)
               else Throw (TypeError ''value'') st))"

text \<open>
  The function literal: \<^verbatim>\<open>const fn = new lib.LFunction(code);
  fn.setScopeVariables(Object.assign({}, variables)); fn.setArguments(args); return fn\<close>.
  \<^verbatim>\<open>LFunction\<close> has the methods \<^verbatim>\<open>setScopeVariables\<close> and \<^verbatim>\<open>setParamaters\<close> and no
  \<^verbatim>\<open>setArguments\<close>, so the third statement is a call of \<^verbatim>\<open>undefined\<close>.
\<close>

definition functionPrim :: "val \<Rightarrow> val \<Rightarrow> addr option \<Rightarrow> state \<Rightarrow> val result" where
  "functionPrim args code variables st =
     (case new_LFunction (Code code) st of (fn', st1) \<Rightarrow>
      case copyScope variables st1 of (sc, st2) \<Rightarrow>
      Throw (TypeError ''setArguments'')
        (st2\<lparr>objs := (objs st2)(fresh st := (objs st2 (fresh st))\<lparr>scopeVariables := Some sc\<rparr>)\<rparr>))"

text \<open>
  One call of \<^verbatim>\<open>evaluateExpression\<close>, with \<open>ev\<close> for the calls it makes of itself, in the
  order of its \<^verbatim>\<open>if\<close> chain.
\<close>

definition evalStep :: "host \<Rightarrow> eval \<Rightarrow> val \<Rightarrow> addr option \<Rightarrow> state \<Rightarrow> val result" where
  "evalStep h ev expression variables st =
     bind (lift (index expression 0) st) (\<lambda>kind _.
     if kind = COMMENT then Ok Undefined st
     else if isArray expression \<and> (case expression of JArr es \<Rightarrow> list_all isArray es | _ \<Rightarrow> False)
       then evaluateEachExpression ev variables expression st
     else if kind = FUNCTION_CALL then
       bind (ev (elem expression 1) variables st) (\<lambda>fn' st1.
       bind (evaluateEachExpression ev variables (elem expression 2) st1) (\<lambda>args st2.
       call h ev fn' (case args of JArr vs \<Rightarrow> vs | _ \<Rightarrow> []) st2))
     else if kind = VARIABLE_IDENTIFIER then
       readVariable h (elem expression 1) variables st
     else if kind = VARIABLE_ASSIGN then
       bind (ev (elem expression 2) variables st) (\<lambda>value st1.
       assignVariable h (elem expression 1) variables value st1)
     else if kind = VARIABLE_CHANGE then
       bind (ev (elem expression 2) variables st) (\<lambda>value st1.
       changeVariable h (elem expression 1) variables value st1)
     else if kind = FUNCTION_PRIM then
       functionPrim (elem expression 1) (elem expression 2) variables st
     else if kind = STRING_PRIM then Ok (toLString h (elem expression 1)) st
     else if kind = BOOLEAN_PRIM then Ok (toLBoolean (elem expression 1)) st
     else if kind = NUMBER_PRIM then Ok (toLNumber h (elem expression 1)) st
     else if kind = SET_PROP_USING_IDENTIFIER then
       bind (ev (elem expression 1) variables st) (\<lambda>obj st1.
       bind (ev (elem expression 3) variables st1) (\<lambda>value st2.
       bind (set' h obj (elem expression 2) value st2) (\<lambda>_ st3.
       Ok Undefined st3)))
     else if kind = GET_PROP_USING_IDENTIFIER then
       bind (ev (elem expression 1) variables st) (\<lambda>obj st1.
       get' h obj (elem expression 2) st1)
     else Throw (InvalidExpressionType expression) st)"

text \<open>
  The evaluator calls itself without bound (a function of the language may call itself), so
  the model counts the depth of these calls: \<open>evaluateExpression h n\<close> allows \<open>n\<close> nested
  calls and ends in \<open>OutOfFuel\<close> when they do not suffice.
\<close>

fun evaluateExpression :: "host \<Rightarrow> nat \<Rightarrow> eval" where
  "evaluateExpression h 0 expression variables st = OutOfFuel"
| "evaluateExpression h (Suc n) expression variables st =
     evalStep h (evaluateExpression h n) expression variables st"

subsection \<open>Starting points\<close>

text \<open>An empty store, and a host for the examples, whose answers the examples never use.\<close>

definition emptyState :: state where
  "emptyState = \<lparr>cells = (\<lambda>_. Undefined), scopes = (\<lambda>_. []), objs = (\<lambda>_. blank LObject),
                 rets = (\<lambda>_. Undefined), fresh = 0, printed = [], returned = []\<rparr>"



subsection \<open>Example stores\<close>

text \<open>
  A scope at address \<open>0\<close> in which \<^verbatim>\<open>f\<close> is bound to a function object around the host
  function \<open>m\<close>.
\<close>

definition nativeExample :: "native \<Rightarrow> state" where
  "nativeExample m =
     emptyState\<lparr>scopes := (scopes emptyState)(0 := [(''f'', 1)]),
                cells := (cells emptyState)(1 := Ref LFunction 2),
                objs := (objs emptyState)(2 := (blank LFunction)\<lparr>fn := Some (Native m)\<rparr>),
                fresh := 3\<rparr>"

text \<open>
  A scope at address \<open>0\<close> in which \<^verbatim>\<open>n\<close> is bound to the empty host array and \<^verbatim>\<open>f\<close> to a
  user-defined function with the given parameters and body, with the scope \<open>0\<close> as its
  captured scope and as its \<^verbatim>\<open>argumentScope\<close>.
\<close>

definition userExample :: "param list \<Rightarrow> val \<Rightarrow> state" where
  "userExample paramaters body =
     emptyState\<lparr>scopes := (scopes emptyState)(0 := [(''f'', 1), (''n'', 3)]),
                cells := (cells emptyState)(1 := Ref LFunction 2, 3 := JArr []),
                objs := (objs emptyState)(2 := (blank LFunction)
                   \<lparr>fn := Some (Code body), scopeVariables := Some 0,
                    paramaterList := Some paramaters, argumentScope := Some 0\<rparr>),
                fresh := 4\<rparr>"

text \<open>
  The expression \<^verbatim>\<open>n -> { n }\<close>: it changes \<^verbatim>\<open>n\<close> to the one-element array of its old
  value, so that the value of \<^verbatim>\<open>n\<close> counts how often the expression was evaluated.
\<close>

definition bump :: val where
  "bump = JArr [VARIABLE_CHANGE, JStr ''n'',
                JArr [JArr [VARIABLE_IDENTIFIER, JStr ''n'']]]"

text \<open>The call \<^verbatim>\<open>name(arguments)\<close>.\<close>

definition callOf :: "string \<Rightarrow> val list \<Rightarrow> val" where
  "callOf name arguments =
     JArr [FUNCTION_CALL, JArr [VARIABLE_IDENTIFIER, JStr name], JArr arguments]"

text \<open>A parameter \<^verbatim>\<open>p\<close> in lazy mode.\<close>

definition lazyP :: param where
  "lazyP = \<lparr>pname = ''p'', ptype = ''unevaluated''\<rparr>"

text \<open>
  The same scope with \<^verbatim>\<open>f\<close> bound to a user-defined function with the lazy parameter
  \<^verbatim>\<open>p\<close>, as \<^verbatim>\<open>new LFunction\<close>, \<^verbatim>\<open>setScopeVariables\<close> and \<^verbatim>\<open>setParamaters\<close> leave it:
  nothing has assigned its \<^verbatim>\<open>argumentScope\<close>.
\<close>

definition lazyExample :: "val \<Rightarrow> state" where
  "lazyExample body =
     emptyState\<lparr>scopes := (scopes emptyState)(0 := [(''f'', 1), (''n'', 3)]),
                cells := (cells emptyState)(1 := Ref LFunction 2, 3 := JArr []),
                objs := (objs emptyState)(2 := (blank LFunction)
                   \<lparr>fn := Some (Code body), scopeVariables := Some 0,
                    paramaterList := Some [lazyP]\<rparr>),
                fresh := 4\<rparr>"



subsection \<open>The record of \<^verbatim>\<open>return\<close> invocations\<close>

text \<open>
  The argument of the last recorded invocation that wrote the \<^verbatim>\<open>returnValue\<close> variable
  \<open>r\<close>, and \<^verbatim>\<open>null\<close> when there is none.
\<close>

definition lastReturn :: "addr \<Rightarrow> (addr \<times> val) list \<Rightarrow> val" where
  "lastReturn r entries = foldl (\<lambda>acc e. if fst e = r then snd e else acc) Null entries"

text \<open>The variable \<open>r\<close> is in use and holds what the record says.\<close>

definition tracks :: "addr \<Rightarrow> state \<Rightarrow> bool" where
  "tracks r st = (r < fresh st \<and> rets st r = lastReturn r (returned st))"

text \<open>A property of the store holds however a run ends.\<close>

definition post :: "(state \<Rightarrow> bool) \<Rightarrow> 'a result \<Rightarrow> bool" where
  "post P m = (case m of Ok v st \<Rightarrow> P st | Throw e st \<Rightarrow> P st
               | HostEffect k \<Rightarrow> True | OutOfFuel \<Rightarrow> True)"

subsection \<open>More fuel\<close>



section \<open>Basic facts\<close>

lemmas kinds = COMMENT_def FUNCTION_CALL_def VARIABLE_IDENTIFIER_def VARIABLE_ASSIGN_def
  VARIABLE_CHANGE_def FUNCTION_PRIM_def STRING_PRIM_def BOOLEAN_PRIM_def NUMBER_PRIM_def
  SET_PROP_USING_IDENTIFIER_def GET_PROP_USING_IDENTIFIER_def

lemma bind_Ok [simp]: "bind (Ok v st) f = f v st"
  by (simp add: bind_def)

lemma bind_Throw [simp]: "bind (Throw e st) f = Throw e st"
  by (simp add: bind_def)

lemma bind_HostEffect [simp]: "bind (HostEffect k) f = HostEffect k"
  by (simp add: bind_def)

lemma bind_OutOfFuel [simp]: "bind OutOfFuel f = OutOfFuel"
  by (simp add: bind_def)

lemma digits_small: "n < 10 \<Longrightarrow> digits n = [digit n]"
  by (simp add: digits.simps)



text \<open>What one call of the evaluator does on each kind of node used below.\<close>

lemma step_read:
  "evalStep h ev (JArr [VARIABLE_IDENTIFIER, name]) variables st =
     readVariable h name variables st"
  by (simp add: evalStep_def index_def lift_def kinds)

lemma step_change:
  "evalStep h ev (JArr [VARIABLE_CHANGE, name, valueExpression]) variables st =
     bind (ev valueExpression variables st)
       (\<lambda>value st1. changeVariable h name variables value st1)"
  by (simp add: evalStep_def index_def lift_def kinds)

lemma step_prim:
  "evalStep h ev (JArr [FUNCTION_PRIM, args, code]) variables st =
     functionPrim args code variables st"
  by (simp add: evalStep_def index_def lift_def kinds)

lemma step_string:
  "evalStep h ev (JArr [STRING_PRIM, s]) variables st = Ok (toLString h s) st"
  by (simp add: evalStep_def index_def lift_def kinds)

lemma step_call:
  "evalStep h ev (JArr [FUNCTION_CALL, fnExpression, JArr argExpressions]) variables st =
     bind (ev fnExpression variables st) (\<lambda>fn' st1.
     bind (evaluateEach ev variables argExpressions st1) (\<lambda>args st2.
     call h ev fn' args st2))"
  apply (simp add: evalStep_def index_def lift_def kinds evaluateEachExpression_def)
  apply (simp add: bind_def split: result.splits)
  done

lemma step_seq:
  "list_all isArray es \<Longrightarrow>
   evalStep h ev (JArr es) variables st = evaluateEachExpression ev variables (JArr es) st"
  by (cases es) (auto simp: evalStep_def index_def lift_def kinds elim: isArray.elims)

lemma step_wrapper:
  "evalStep h ev (StringPrim f) variables st = Throw (InvalidExpressionType (StringPrim f)) st"
  by (simp add: evalStep_def index_def lift_def kinds)


lemma step_undefined:
  "evalStep h ev Undefined variables st = Throw (TypeError ''0'') st"
  by (simp add: evalStep_def index_def lift_def intText_def digits_small digit_def)

section \<open>What every run preserves\<close>

text \<open>
  No step of the library or the evaluator writes a \<^verbatim>\<open>returnValue\<close> variable except the
  \<^verbatim>\<open>return\<close> function made for it, which also extends the record; and addresses in use
  stay in use.
\<close>

lemma post_simps [simp]:
  "post P (Ok v st) = P st" "post P (Throw e st) = P st"
  "post P (HostEffect k) = True" "post P OutOfFuel = True"
  by (simp_all add: post_def)



lemma tracks_ext:
  "tracks r st \<Longrightarrow> rets st' = rets st \<Longrightarrow> returned st' = returned st \<Longrightarrow>
   fresh st \<le> fresh st' \<Longrightarrow> tracks r st'"
  by (auto simp: tracks_def)

lemma tracks_data_assign: "tracks r st \<Longrightarrow> post (tracks r) (data_assign a k v st)"
  by (auto simp: data_assign_def tracks_def)























section \<open>Facts about calls\<close>








text \<open>The facts that evaluate a run on the example stores.\<close>

lemmas run =
  callOf_def bump_def step_call step_read step_change step_seq readVariable_def
  changeVariable_def userExample_def emptyState_def call_def defaultCall_def userCall_def
  enterCall_def blank_def evaluateEachExpression_def copyScope_def new_LFunction_def
  alloc_def bindVariable_def Let_def arg_def lift_def

text \<open>A parameter in lazy mode: what is bound, and what a reference to it does.\<close>

lemma lazy_binding:
  assumes "ptype p = ''unevaluated''" and "pname p \<noteq> ''__proto__''"
  shows "\<exists>st1 c g. (\<forall>ev. bindParamaters ev f scope args i [p] st = Ok () st1)
           \<and> map_of (scopes st1 scope) (pname p) = Some c
           \<and> cells st1 c = Ref LFunction g
           \<and> fn (objs st1 g) = Some (Native (NLazy (arg i args) f))"
  using assms
  by (simp add: new_LFunction_def alloc_def bindVariable_def update_conv' blank_def)

lemma lazy_reference:
  assumes "map_of (scopes st s) name = Some c" and "cells st c = Ref LFunction g"
    and "fn (objs st g) = Some (Native (NLazy e f))"
  shows "evaluateExpression h (Suc (Suc n)) (callOf name []) (Some s) st
         = evaluateExpression h (Suc n) e (argumentScope (objs st f)) st"
  using assms
  by (simp add: callOf_def step_call step_read readVariable_def call_def defaultCall_def)



section \<open>Facts about variables\<close>

text \<open>
  Reading a name the scope has gives the value of its cell; reading a name that neither the
  scope nor the host's base object has throws the message, which contains the name.
  Changing a name the scope has writes its cell, so that every scope that holds the same
  cell under any name reads the new value; changing a name that neither the scope nor the
  host's base object has ends in the host's type error.
\<close>

lemma read_existing:
  "map_of (scopes st s) (JS_String h name) = Some c \<Longrightarrow>
   evaluateExpression h (Suc n) (JArr [VARIABLE_IDENTIFIER, name]) (Some s) st = Ok (cells st c) st"
  by (simp add: step_read readVariable_def)

lemma notFound_names:
  "\<exists>before after. notFound h name sc = JStr (before @ JS_String h name @ after)"
  unfolding notFound_def
  by (rule exI [of _ "''Variable ''"], rule exI [of _ "'' not in ['' @ join (Object_keys sc) @ '']''"])
     simp

lemma read_missing:
  "map_of (scopes st s) (JS_String h name) = None \<Longrightarrow> \<not> inherited (JS_String h name) \<Longrightarrow>
   evaluateExpression h (Suc n) (JArr [VARIABLE_IDENTIFIER, name]) (Some s) st
   = Throw (Thrown (notFound h name (scopes st s))) st"
  by (simp add: step_read readVariable_def)

lemma change_existing:
  "ev valueExpression (Some s) st = Ok v st1 \<Longrightarrow>
   map_of (scopes st1 s) (JS_String h name) = Some c \<Longrightarrow>
   evalStep h ev (JArr [VARIABLE_CHANGE, name, valueExpression]) (Some s) st
   = Ok Undefined (st1\<lparr>cells := (cells st1)(c := v)\<rparr>)"
  by (simp add: step_change changeVariable_def)

lemma change_missing:
  "ev valueExpression (Some s) st = Ok v st1 \<Longrightarrow>
   map_of (scopes st1 s) (JS_String h name) = None \<Longrightarrow> \<not> inherited (JS_String h name) \<Longrightarrow>
   evalStep h ev (JArr [VARIABLE_CHANGE, name, valueExpression]) (Some s) st
   = Throw (TypeError ''value'') st1"
  by (simp add: step_change changeVariable_def)


section \<open>More fuel changes no result\<close>
















section \<open>Properties of the conversion layer\<close>

text \<open>
  C8, evaluated on the code: \<^verbatim>\<open>toJBoolean\<close> has no branch for a raw host value, unlike
  \<^verbatim>\<open>toJString\<close> and \<^verbatim>\<open>toJNumber\<close>, which fall back to \<^verbatim>\<open>String\<close> and \<^verbatim>\<open>Number\<close>. Given the raw
  host boolean \<^verbatim>\<open>true\<close> it answers \<^verbatim>\<open>false\<close>, while the two siblings return a raw host value
  unchanged.
\<close>

theorem C8_toJBoolean_raw_true:
  "toJBoolean (JBool True) = False
   \<and> toJString h (JStr s) = s
   \<and> toJNumber h (JNum n) = n"
  by (simp add: toJBoolean_def toJString_def toJNumber_def)

text \<open>
  C9: for each of the three wrappers, reading the field after writing \<open>v\<close> gives the
  host's coercion of \<open>v\<close> to the wrapper's kind, whatever the wrapper held before, and
  coercing the coerced value again changes nothing.
\<close>

theorem C9_wrapper_read_after_write:
  "get_str h (set_str h v) = JS_String h v
   \<and> get_bool (set_bool v) = JS_Boolean v
   \<and> get_num h (set_num h v) = JS_Number h v
   \<and> JS_String h (JStr (JS_String h v)) = JS_String h v
   \<and> JS_Boolean (JBool (JS_Boolean v)) = JS_Boolean v
   \<and> JS_Number h (JNum (JS_Number h v)) = JS_Number h v
   \<and> set_str h (set_str h v) = set_str h v
   \<and> set_bool (set_bool v) = set_bool v
   \<and> set_num h (set_num h v) = set_num h v"
  by (simp add: get_str_def set_str_def get_bool_def set_bool_def get_num_def set_num_def)

section \<open>Properties of the object model\<close>

text \<open>
  C4, evaluated on the code: \<^verbatim>\<open>has\<close> asks the host whether the key is in the object
  itself, so the data map plays no part in its answer. Right after \<^verbatim>\<open>set(o, 'x', v)\<close> on an
  \<^verbatim>\<open>LObject\<close> the key \<^verbatim>\<open>x\<close> is in the data map and \<^verbatim>\<open>has(o, 'x')\<close> is false; \<^verbatim>\<open>has(o, 'data')\<close>
  is true although the data map has no such key; and for every instance and key the answer
  is membership among the instance's own fields and methods.
\<close>

theorem C4_has_ignores_data:
  "(case set' h (Ref LObject a) (JStr ''x'') v st of
      Ok r st' \<Rightarrow> r = v \<and> data (objs st' a) ''x'' = Some v
                 \<and> has h st' (Ref LObject a) (JStr ''x'') = Inr False
    | _ \<Rightarrow> False)
   \<and> has h st (Ref LObject a) (JStr ''data'') = Inr True
   \<and> has h st (Ref c a) key = Inr (JS_String h key \<in> set (instanceMembers st c a))"
  by (simp add: set'_def defaultSet_def data_assign_def toJString_def has_def
      instanceMembers_def ObjectPrototype_members_def)




section \<open>Properties of the evaluator\<close>

text \<open>
  C5, evaluated on the code: a function literal never evaluates to a function object. For
  every parameter list, body, scope and store, the evaluation ends in the host's type error
  about \<^verbatim>\<open>setArguments\<close>, a method \<^verbatim>\<open>LFunction\<close> does not have.
\<close>

theorem C5_function_literal_throws:
  "\<exists>st'. evaluateExpression h (Suc n) (JArr [FUNCTION_PRIM, args, code]) variables st
          = Throw (TypeError ''setArguments'') st'"
  by (simp add: step_prim functionPrim_def new_LFunction_def alloc_def copyScope_def)

text \<open>
  C6, evaluated on the code: changing the variable \<^verbatim>\<open>x\<close> in a scope that has no \<^verbatim>\<open>x\<close> ends
  in the host's type error about the property \<^verbatim>\<open>value\<close>, which says nothing of \<^verbatim>\<open>x\<close>;
  reading \<^verbatim>\<open>x\<close> in the same scope throws the message that names \<^verbatim>\<open>x\<close>.
\<close>

theorem C6_change_of_missing_variable:
  "evaluateExpression h (Suc (Suc n))
     (JArr [VARIABLE_CHANGE, JStr ''x'', JArr [STRING_PRIM, JStr ''v'']]) (Some s)
     (st\<lparr>scopes := (scopes st)(s := [])\<rparr>)
   = Throw (TypeError ''value'') (st\<lparr>scopes := (scopes st)(s := [])\<rparr>)
   \<and> evaluateExpression h (Suc n) (JArr [VARIABLE_IDENTIFIER, JStr ''x'']) (Some s)
       (st\<lparr>scopes := (scopes st)(s := [])\<rparr>)
     = Throw (Thrown (JStr ''Variable x not in []'')) (st\<lparr>scopes := (scopes st)(s := [])\<rparr>)"
  by (simp add: step_change step_string step_read changeVariable_def readVariable_def
      inherited_def ObjectPrototype_members_def notFound_def Object_keys_def)

text \<open>
  C7, evaluated on the code: reading the variable \<^verbatim>\<open>toString\<close> in an empty scope does not
  fail. The host's \<^verbatim>\<open>in\<close> finds the member every host object inherits, and the evaluator
  returns its \<^verbatim>\<open>value\<close>, which is \<^verbatim>\<open>undefined\<close>.
\<close>

theorem C7_read_of_inherited_name:
  "evaluateExpression h (Suc n) (JArr [VARIABLE_IDENTIFIER, JStr ''toString'']) (Some s)
     (st\<lparr>scopes := (scopes st)(s := [])\<rparr>)
   = Ok Undefined (st\<lparr>scopes := (scopes st)(s := [])\<rparr>)"
  by (simp add: step_read readVariable_def inherited_def ObjectPrototype_members_def)



text \<open>
  C1, evaluated on the code: at a function-call node the evaluator evaluates the function
  expression and then every argument expression, in the scope of the call, and hands the
  values to \<^verbatim>\<open>lib.call\<close>. \<^verbatim>\<open>defaultCall\<close> takes what it is handed for expressions. So a call
  of a host function with a string literal as argument throws: the wrapper the literal
  evaluated to is evaluated again and is no expression. And a call of a user-defined function
  without parameters still evaluates its argument: the argument \<^verbatim>\<open>n -> { n }\<close> has changed
  \<^verbatim>\<open>n\<close> when the call returns.
\<close>

theorem C1_arguments_evaluated_at_call_site:
  "evalStep h ev (JArr [FUNCTION_CALL, fnExpression, JArr argExpressions]) variables st =
     bind (ev fnExpression variables st) (\<lambda>fn' st1.
     bind (evaluateEach ev variables argExpressions st1) (\<lambda>args st2.
     call h ev fn' args st2))
   \<and> evaluateExpression h (Suc (Suc n)) (callOf ''f'' [JArr [STRING_PRIM, JStr x]]) (Some 0)
       (nativeExample m)
     = Throw (InvalidExpressionType (toLString h (JStr x))) (nativeExample m)
   \<and> (case evaluateExpression h (Suc (Suc (Suc (Suc n)))) (callOf ''f'' [bump]) (Some 0)
              (userExample [] (JArr [])) of
         Ok v st' \<Rightarrow> v = Null \<and> cells st' 3 = JArr [JArr []]
       | _ \<Rightarrow> False)"
  by (simp add: step_call step_string step_wrapper toLString_def nativeExample_def run)

text \<open>
  C2, evaluated on the code: \<^verbatim>\<open>f\<close> is a user-defined function with the lazy parameter \<^verbatim>\<open>p\<close>,
  and the argument \<^verbatim>\<open>n -> { n }\<close> counts its evaluations in \<^verbatim>\<open>n\<close>. Evaluating the call
  \<^verbatim>\<open>f(n -> { n })\<close> with an empty body changes \<^verbatim>\<open>n\<close> once, though the body never refers to
  \<^verbatim>\<open>p\<close>: the call node has evaluated the argument. With the body \<^verbatim>\<open>p(); p()\<close> the call
  changes \<^verbatim>\<open>n\<close> once and throws at the first reference, where the value the argument
  evaluated to, \<^verbatim>\<open>undefined\<close>, is evaluated as an expression; this is so whether or not
  the function's \<^verbatim>\<open>argumentScope\<close> was assigned. And when \<^verbatim>\<open>lib.call\<close> is handed the
  argument expression itself, the first reference evaluates it with no scope, since
  nothing has assigned \<^verbatim>\<open>argumentScope\<close>, and throws before \<^verbatim>\<open>n\<close> is changed.
\<close>

theorem C2_lazy_argument_evaluated_at_call_site:
  "(case evaluateExpression h (Suc (Suc (Suc (Suc n)))) (callOf ''f'' [bump]) (Some 0)
          (lazyExample (JArr [])) of
      Ok v st' \<Rightarrow> v = Null \<and> cells st' 3 = JArr [JArr []]
    | _ \<Rightarrow> False)
   \<and> (case evaluateExpression h (Suc (Suc (Suc (Suc n)))) (callOf ''f'' [bump]) (Some 0)
            (lazyExample (JArr [callOf ''p'' [], callOf ''p'' []])) of
        Throw e st' \<Rightarrow> e = TypeError ''0'' \<and> cells st' 3 = JArr [JArr []]
      | _ \<Rightarrow> False)
   \<and> (case evaluateExpression h (Suc (Suc (Suc (Suc n)))) (callOf ''f'' [bump]) (Some 0)
            (userExample [lazyP] (JArr [callOf ''p'' [], callOf ''p'' []])) of
        Throw e st' \<Rightarrow> e = TypeError ''0'' \<and> cells st' 3 = JArr [JArr []]
      | _ \<Rightarrow> False)
   \<and> (case call h (evaluateExpression h (Suc (Suc (Suc (Suc n))))) (Ref LFunction 2) [bump]
            (lazyExample (JArr [callOf ''p'' []])) of
        Throw e st' \<Rightarrow> e = TypeError ''n'' \<and> cells st' 3 = JArr []
      | _ \<Rightarrow> False)"
  by (simp add: lazyExample_def lazyP_def run step_undefined)


end
